theory Spec2Isabelle
  imports Main "HOL-Library.Word"
begin

section \<open>The callback bridge of \<^verbatim>\<open>frontends/qt/libserver.h\<close>\<close>

text \<open>
  The header declares four callback types, one static trampoline for each of them, the
  type \<^verbatim>\<open>cppHeapFree\<close>, and the prototypes of the exported functions
  \<^verbatim>\<open>backendCall\<close>, \<^verbatim>\<open>handleURI\<close>, \<^verbatim>\<open>serve\<close> and \<^verbatim>\<open>systemOpen\<close>.
  Each trampoline calls the function pointer it is given with the arguments it is given.

  C values are embedded as follows.
  \<^item> A data pointer (\<^verbatim>\<open>const char*\<close>, \<^verbatim>\<open>char*\<close>, \<^verbatim>\<open>void*\<close>) is a \<open>ptr\<close>: the null
    pointer or an address. The trampolines never dereference a data pointer.
  \<^item> \<^verbatim>\<open>int\<close> is a 32-bit word.
  \<^item> A function pointer is an \<open>option\<close>: \<open>None\<close> is the null pointer, \<open>Some g\<close> points
    to the function \<open>g\<close>. The callee is code of the shell; what it does is a function on
    the world \<open>'w\<close> it can see and change (explicit state passing).
  \<^item> A call through a null function pointer has no defined behaviour in C. The model
    makes it the value \<open>Inl NullCall\<close>; a call that happens returns \<open>Inr\<close>.
\<close>

datatype ptr = NULL | Addr nat

type_synonym cint = "32 word"

datatype fault = NullCall

text \<open>\<^verbatim>\<open>typedef void (*pushNotificationsCallback) (const char*);\<close>\<close>

type_synonym 'w pushNotificationsCallback = "(ptr \<Rightarrow> 'w \<Rightarrow> 'w) option"

text \<open>\<^verbatim>\<open>typedef void (*responseCallback) (int, const char*);\<close>\<close>

type_synonym 'w responseCallback = "(cint \<Rightarrow> ptr \<Rightarrow> 'w \<Rightarrow> 'w) option"

text \<open>\<^verbatim>\<open>typedef void (*notifyUserCallback) (const char*);\<close>\<close>

type_synonym 'w notifyUserCallback = "(ptr \<Rightarrow> 'w \<Rightarrow> 'w) option"

text \<open>\<^verbatim>\<open>typedef char* (*getSaveFilenameCallback) (const char*);\<close>\<close>

type_synonym 'w getSaveFilenameCallback = "(ptr \<Rightarrow> 'w \<Rightarrow> ptr \<times> 'w) option"

text \<open>\<^verbatim>\<open>typedef void (*cppHeapFree) (void* ptr);\<close>\<close>

type_synonym 'w cppHeapFree = "(ptr \<Rightarrow> 'w \<Rightarrow> 'w) option"

subsection \<open>The trampolines\<close>

text \<open>\<^verbatim>\<open>static void pushNotify(pushNotificationsCallback f, const char* msg) { f(msg); }\<close>\<close>

definition pushNotify :: "'w pushNotificationsCallback \<Rightarrow> ptr \<Rightarrow> 'w \<Rightarrow> fault + 'w" where
  "pushNotify f msg w = (case f of None \<Rightarrow> Inl NullCall | Some g \<Rightarrow> Inr (g msg w))"

text \<open>\<^verbatim>\<open>static void respond(responseCallback f, int queryID, const char* msg) { f(queryID, msg); }\<close>\<close>

definition respond :: "'w responseCallback \<Rightarrow> cint \<Rightarrow> ptr \<Rightarrow> 'w \<Rightarrow> fault + 'w" where
  "respond f queryID msg w =
     (case f of None \<Rightarrow> Inl NullCall | Some g \<Rightarrow> Inr (g queryID msg w))"

text \<open>\<^verbatim>\<open>static void notifyUser(notifyUserCallback f, const char* msg) { f(msg); }\<close>\<close>

definition notifyUser :: "'w notifyUserCallback \<Rightarrow> ptr \<Rightarrow> 'w \<Rightarrow> fault + 'w" where
  "notifyUser f msg w = (case f of None \<Rightarrow> Inl NullCall | Some g \<Rightarrow> Inr (g msg w))"

text \<open>
  \<^verbatim>\<open>static char* getSaveFilename(getSaveFilenameCallback f, const char* suggestedfilename)
  { return f(suggestedfilename); }\<close>
  The result is the pointer the callee returned, with the world the callee left.
\<close>

definition getSaveFilename ::
  "'w getSaveFilenameCallback \<Rightarrow> ptr \<Rightarrow> 'w \<Rightarrow> fault + ptr \<times> 'w" where
  "getSaveFilename f suggestedfilename w =
     (case f of None \<Rightarrow> Inl NullCall | Some g \<Rightarrow> Inr (g suggestedfilename w))"

subsection \<open>Sequences of calls, and what the shell observes\<close>

text \<open>
  The backend issues calls one after the other on its thread; a call that faults ends the
  run, as the crash would.
\<close>

fun pushNotify_all :: "'w pushNotificationsCallback \<Rightarrow> ptr list \<Rightarrow> 'w \<Rightarrow> fault + 'w" where
  "pushNotify_all f [] w = Inr w"
| "pushNotify_all f (msg # msgs) w =
     (case pushNotify f msg w of Inl e \<Rightarrow> Inl e | Inr w' \<Rightarrow> pushNotify_all f msgs w')"

fun respond_all :: "'w responseCallback \<Rightarrow> (cint \<times> ptr) list \<Rightarrow> 'w \<Rightarrow> fault + 'w" where
  "respond_all f [] w = Inr w"
| "respond_all f ((queryID, msg) # calls) w =
     (case respond f queryID msg w of Inl e \<Rightarrow> Inl e | Inr w' \<Rightarrow> respond_all f calls w')"

text \<open>
  To speak about the invocations of a callback whatever the callback does, a callback
  \<open>g\<close> is instrumented: the world is paired with the list of invocations seen so far,
  and each invocation appends its arguments before \<open>g\<close> runs.
\<close>

definition observed :: "(ptr \<Rightarrow> 'w \<Rightarrow> 'w) \<Rightarrow> ptr \<Rightarrow> ptr list \<times> 'w \<Rightarrow> ptr list \<times> 'w" where
  "observed g msg s = (fst s @ [msg], g msg (snd s))"

definition observed_response ::
  "(cint \<Rightarrow> ptr \<Rightarrow> 'w \<Rightarrow> 'w) \<Rightarrow> cint \<Rightarrow> ptr \<Rightarrow> (cint \<times> ptr) list \<times> 'w \<Rightarrow> (cint \<times> ptr) list \<times> 'w" where
  "observed_response g queryID msg s = (fst s @ [(queryID, msg)], g queryID msg (snd s))"

text \<open>A shell callback that only keeps the responses it is given, oldest first.\<close>

definition record_response :: "cint \<Rightarrow> ptr \<Rightarrow> (cint \<times> ptr) list \<Rightarrow> (cint \<times> ptr) list" where
  "record_response queryID msg seen = seen @ [(queryID, msg)]"

text \<open>
  A small shell for the save dialog: its world is the list of addresses of the buffers it
  has allocated and not yet freed. The dialog either allocates the buffer of the chosen
  path at the next free address, or is cancelled and returns the null pointer. Its
  \<^verbatim>\<open>cppHeapFree\<close> frees the buffer at the address it is given.
\<close>

definition dialog_accepts :: "ptr \<Rightarrow> nat list \<Rightarrow> ptr \<times> nat list" where
  "dialog_accepts suggested live = (Addr (Suc (fold max live 0)), Suc (fold max live 0) # live)"

definition dialog_cancelled :: "ptr \<Rightarrow> nat list \<Rightarrow> ptr \<times> nat list" where
  "dialog_cancelled suggested live = (NULL, live)"

definition shell_free :: "ptr \<Rightarrow> nat list \<Rightarrow> nat list" where
  "shell_free p live = (case p of NULL \<Rightarrow> live | Addr a \<Rightarrow> remove1 a live)"

text \<open>The other callbacks of the small shell leave its buffers alone.\<close>

definition ignore_message :: "ptr \<Rightarrow> nat list \<Rightarrow> nat list" where
  "ignore_message msg live = live"

definition ignore_response :: "cint \<Rightarrow> ptr \<Rightarrow> nat list \<Rightarrow> nat list" where
  "ignore_response queryID msg live = live"

section \<open>The Bridge Dispatcher\<close>

text \<open>
  Modelled from the spec: the bodies of \<^verbatim>\<open>serve\<close>, \<^verbatim>\<open>backendCall\<close>, \<^verbatim>\<open>handleURI\<close> and
  \<^verbatim>\<open>systemOpen\<close>, and the state they work on. The header declares the four functions
  \<^verbatim>\<open>extern\<close> and gives their parameters; their definitions are not among the sources.
  What follows takes the parameter lists from the header and the behaviour from the
  spec's sections on the data model, the Bridge Dispatcher, the Inbound Call Surface and
  error handling.
\<close>

text \<open>
  Modelled from the spec: the CallbackTable, a record of the five capability slots. The
  fields carry the names and types of the parameters of \<^verbatim>\<open>serve\<close> in the header.
\<close>

record 'w CallbackTable =
  cppHeapFreeFn :: "'w cppHeapFree"
  pushNotificationsFn :: "'w pushNotificationsCallback"
  responseFn :: "'w responseCallback"
  notifyUserFn :: "'w notifyUserCallback"
  getSaveFilenameFn :: "'w getSaveFilenameCallback"

text \<open>
  Modelled from the spec: a slot is unusable when the shell has not wired it, that is,
  when it is the null pointer.
\<close>

definition usable :: "'w CallbackTable \<Rightarrow> bool" where
  "usable t = (cppHeapFreeFn t \<noteq> None \<and> pushNotificationsFn t \<noteq> None \<and> responseFn t \<noteq> None \<and>
               notifyUserFn t \<noteq> None \<and> getSaveFilenameFn t \<noteq> None)"

text \<open>
  Modelled from the spec: what the backend's internal processing asks of the shell, one
  constructor for each slot it invokes through a trampoline of the header.
\<close>

datatype event =
  PushNotification ptr
| RespondToQuery cint ptr
| NotifyUser ptr
| RequestSaveFilename ptr

text \<open>
  Modelled from the spec: the calls of the Inbound Call Surface, with the parameters the
  header gives \<^verbatim>\<open>backendCall(int, char*)\<close>, \<^verbatim>\<open>handleURI(char*)\<close>, \<^verbatim>\<open>systemOpen(char*)\<close>.
\<close>

datatype inbound =
  BackendCall cint ptr
| HandleURI ptr
| SystemOpen ptr

text \<open>
  Modelled from the spec: the errors the bridge reports. The first three are startup
  failures (\<^verbatim>\<open>serve\<close> called again, a slot that is not wired, no locale); the last is
  a fault while the backend runs.
\<close>

datatype bridge_error =
  AlreadyStarted
| UnusableSlot
| MissingLocale
| BackendFault fault

text \<open>
  Modelled from the spec: where the process is in its life. \<^verbatim>\<open>serve\<close> has not been
  called with success, or the backend is processing, or the backend has terminated.
\<close>

datatype phase = NotStarted | Serving | Terminated

text \<open>
  Modelled from the spec: the state of the process as the bridge sees it. \<open>callbacks\<close>
  and \<open>session_locale\<close> are unset until \<^verbatim>\<open>serve\<close> has constructed the table;
  \<open>pending\<close> is the processing the backend still has ahead of it; \<open>inbox\<close> holds the
  inbound calls handed to the backend; \<open>shell\<close> is the world the callbacks act on;
  \<open>reported\<close> lists the errors reported so far, oldest first.
\<close>

record 'w bridge =
  callbacks :: "'w CallbackTable option"
  session_locale :: "ptr option"
  phase :: phase
  pending :: "event list"
  inbox :: "inbound list"
  shell :: 'w
  reported :: "bridge_error list"

text \<open>
  Modelled from the spec: the process before \<^verbatim>\<open>serve\<close>, with the processing \<open>evs\<close>
  the backend will do and the shell's world \<open>w\<close>.
\<close>

definition fresh :: "event list \<Rightarrow> 'w \<Rightarrow> 'w bridge" where
  "fresh evs w = \<lparr>callbacks = None, session_locale = None, phase = NotStarted, pending = evs,
                  inbox = [], shell = w, reported = []\<rparr>"

text \<open>
  Modelled from the spec: one invocation of a slot. The backend goes through the
  trampoline of the header with the slot of the table; of a save-filename request the
  returned pointer goes to the backend and the shell keeps the world the callback left.
\<close>

fun invoke :: "'w CallbackTable \<Rightarrow> event \<Rightarrow> 'w \<Rightarrow> fault + 'w" where
  "invoke t (PushNotification msg) w = pushNotify (pushNotificationsFn t) msg w"
| "invoke t (RespondToQuery queryID msg) w = respond (responseFn t) queryID msg w"
| "invoke t (NotifyUser msg) w = notifyUser (notifyUserFn t) msg w"
| "invoke t (RequestSaveFilename suggested) w =
     (case getSaveFilename (getSaveFilenameFn t) suggested w of
        Inl e \<Rightarrow> Inl e
      | Inr r \<Rightarrow> Inr (snd r))"

text \<open>
  Modelled from the spec: the backend's processing, which \<^verbatim>\<open>serve\<close> starts and waits
  for. It handles the pending events in order and terminates when none is left
  (graceful shutdown) or when an invocation faults (fatal error).
\<close>

fun run_backend :: "'w CallbackTable \<Rightarrow> event list \<Rightarrow> 'w bridge \<Rightarrow> 'w bridge" where
  "run_backend t [] b = b\<lparr>phase := Terminated, pending := []\<rparr>"
| "run_backend t (e # es) b =
     (case invoke t e (shell b) of
        Inl f \<Rightarrow> b\<lparr>phase := Terminated, pending := e # es, reported := reported b @ [BackendFault f]\<rparr>
      | Inr w' \<Rightarrow> run_backend t es (b\<lparr>shell := w'\<rparr>))"

text \<open>
  Modelled from the spec: \<^verbatim>\<open>serve\<close>, with the six parameters of the header in the
  header's order. It returns nothing; its effect is the new state. A call after the
  bridge has started is rejected with a reported startup error and changes nothing else.
  A slot that is not wired, or a missing locale, is one fatal error reported before any
  event is processed. Otherwise the table is constructed, the locale is kept, the
  backend's processing runs, and the call returns when the backend has terminated.
\<close>

definition serve ::
  "'w cppHeapFree \<Rightarrow> 'w pushNotificationsCallback \<Rightarrow> 'w responseCallback \<Rightarrow>
   'w notifyUserCallback \<Rightarrow> ptr \<Rightarrow> 'w getSaveFilenameCallback \<Rightarrow> 'w bridge \<Rightarrow> 'w bridge" where
  "serve cppHeapFreeFn' pushNotificationsFn' responseFn' notifyUserFn' preferredLocale
      getSaveFilenameFn' b =
     (let t = \<lparr>cppHeapFreeFn = cppHeapFreeFn', pushNotificationsFn = pushNotificationsFn',
               responseFn = responseFn', notifyUserFn = notifyUserFn',
               getSaveFilenameFn = getSaveFilenameFn'\<rparr>
      in if phase b \<noteq> NotStarted then b\<lparr>reported := reported b @ [AlreadyStarted]\<rparr>
         else if \<not> usable t then b\<lparr>reported := reported b @ [UnusableSlot]\<rparr>
         else if preferredLocale = NULL then b\<lparr>reported := reported b @ [MissingLocale]\<rparr>
         else run_backend t (pending b)
                (b\<lparr>callbacks := Some t, session_locale := Some preferredLocale, phase := Serving\<rparr>))"

text \<open>
  Modelled from the spec: the three inbound calls return nothing and hand their
  arguments to the backend; what the backend makes of them is outside the bridge.
\<close>

definition backendCall :: "cint \<Rightarrow> ptr \<Rightarrow> 'w bridge \<Rightarrow> 'w bridge" where
  "backendCall p0 p1 b = b\<lparr>inbox := inbox b @ [BackendCall p0 p1]\<rparr>"

definition handleURI :: "ptr \<Rightarrow> 'w bridge \<Rightarrow> 'w bridge" where
  "handleURI p0 b = b\<lparr>inbox := inbox b @ [HandleURI p0]\<rparr>"

definition systemOpen :: "ptr \<Rightarrow> 'w bridge \<Rightarrow> 'w bridge" where
  "systemOpen p0 b = b\<lparr>inbox := inbox b @ [SystemOpen p0]\<rparr>"

text \<open>
  Modelled from the spec: the entry points the shell calls, as values, so that a list of
  them is a sequence of calls made one after the other.
\<close>

datatype 'w operation =
  Serve "'w cppHeapFree" "'w pushNotificationsCallback" "'w responseCallback"
        "'w notifyUserCallback" ptr "'w getSaveFilenameCallback"
| Inbound inbound

fun perform :: "'w operation \<Rightarrow> 'w bridge \<Rightarrow> 'w bridge" where
  "perform (Serve f1 f2 f3 f4 loc f6) b = serve f1 f2 f3 f4 loc f6 b"
| "perform (Inbound (BackendCall p0 p1)) b = backendCall p0 p1 b"
| "perform (Inbound (HandleURI p0)) b = handleURI p0 b"
| "perform (Inbound (SystemOpen p0)) b = systemOpen p0 b"

section \<open>Properties of the trampolines\<close>

lemma pushNotify_all_Some: "pushNotify_all (Some g) msgs w = Inr (fold g msgs w)"
  by (induction msgs arbitrary: w) (simp_all add: pushNotify_def)

lemma respond_all_Some:
  "respond_all (Some g) calls w = Inr (fold (\<lambda>c. g (fst c) (snd c)) calls w)"
  by (induction calls arbitrary: w) (auto simp: respond_def)

lemma fold_observed:
  "fold (observed g) msgs (tr, w) = (tr @ msgs, fold g msgs w)"
  by (induction msgs arbitrary: tr w) (simp_all add: observed_def)

lemma fold_observed_response:
  "fold (\<lambda>c. observed_response g (fst c) (snd c)) calls (tr, w)
     = (tr @ calls, fold (\<lambda>c. g (fst c) (snd c)) calls w)"
  by (induction calls arbitrary: tr w) (simp_all add: observed_response_def)

text \<open>
  Claim C5. For every sequence of messages the backend pushes through a registered
  (non-null) callback, every call goes through, the callback is invoked once per call
  with the message of that call, and the invocations the shell sees are the messages in
  the order issued; the effects on the shell's world are those of the callback applied
  to the messages in that order.
\<close>

theorem pushNotify_preserves_order:
  "pushNotify_all (Some (observed g)) msgs (tr, w) = Inr (tr @ msgs, fold g msgs w)"
  by (simp add: pushNotify_all_Some fold_observed)

text \<open>
  Claim C8. \<^verbatim>\<open>notifyUser\<close> and \<^verbatim>\<open>pushNotify\<close> deliver alike: for every callback pointer
  (null or not), message and world, the two trampolines give the same result, which for
  a non-null callback is one call of it with the message and nothing returned but the
  world it leaves.
\<close>

theorem notifyUser_delivers_as_pushNotify:
  "notifyUser f msg w = pushNotify f msg w \<and>
   notifyUser (Some g) msg w = Inr (g msg w) \<and> pushNotify (Some g) msg w = Inr (g msg w)"
  by (simp add: notifyUser_def pushNotify_def)

text \<open>
  Claim C1, as the code has it. \<^verbatim>\<open>respond\<close> keeps no record of the identifiers in
  flight and compares nothing: through a registered (non-null) callback it forwards
  every call, once, with the identifier and the message it was given. So for every
  sequence of responses, repeated or never-issued identifiers included, no call is
  refused and the shell sees exactly the calls made, in order.
\<close>

theorem respond_forwards_every_call:
  "respond (Some g) queryID msg w = Inr (g queryID msg w) \<and>
   respond_all (Some (observed_response g)) calls (tr, w)
     = Inr (tr @ calls, fold (\<lambda>c. g (fst c) (snd c)) calls w)"
  by (simp add: respond_def respond_all_Some fold_observed_response)

text \<open>
  The claim as stated fails. Two responses for the identifier 7 are both forwarded to the
  shell and neither is reported; a response for the identifier 9, when no query was
  ever issued, is forwarded as well.
\<close>

theorem respond_duplicate_counterexample:
  "respond_all (Some record_response) [(7, Addr 1), (7, Addr 2)] []
     = Inr [(7, Addr 1), (7, Addr 2)] \<and>
   respond (Some record_response) 9 (Addr 3) [] = Inr [(9, Addr 3)]"
  by (simp add: respond_def record_response_def)

text \<open>
  Claim C3. Through a registered (non-null) callback, \<^verbatim>\<open>getSaveFilename\<close> returns
  exactly what the shell's callback produced for the suggested filename, pointer and
  world: either the null pointer (the dialog was cancelled, and there is no buffer), or
  the address of the buffer holding the chosen path, unchanged, which is the value to
  hand to the release function.
\<close>

theorem getSaveFilename_returns_callback_result:
  assumes "f = Some g"
  shows "getSaveFilename f suggestedfilename w = Inr (g suggestedfilename w) \<and>
         (fst (g suggestedfilename w) = NULL \<or> (\<exists>a. fst (g suggestedfilename w) = Addr a))"
  using assms by (cases "fst (g suggestedfilename w)") (simp_all add: getSaveFilename_def)

text \<open>
  With the small shell above: an accepted dialog returns the buffer the shell allocated,
  and the shell's free function, given that pointer as it is, frees it; a cancelled
  dialog returns the null pointer and leaves nothing allocated.
\<close>

theorem getSaveFilename_returns_callback_result_witness:
  "getSaveFilename (Some dialog_accepts) (Addr 0) [] = Inr (Addr 1, [1]) \<and>
   shell_free (Addr 1) [1] = [] \<and>
   getSaveFilename (Some dialog_cancelled) (Addr 0) [] = Inr (NULL, [])"
  using getSaveFilename_returns_callback_result [of "Some dialog_accepts" dialog_accepts "Addr 0" "[]"]
    getSaveFilename_returns_callback_result [of "Some dialog_cancelled" dialog_cancelled "Addr 0" "[]"]
  by (simp add: dialog_accepts_def dialog_cancelled_def shell_free_def)



section \<open>Properties of the Bridge Dispatcher\<close>

lemma invoke_usable: "usable t \<Longrightarrow> \<exists>w'. invoke t e w = Inr w'"
  by (cases e)
    (auto simp: usable_def pushNotify_def respond_def notifyUser_def getSaveFilename_def)

lemma run_backend_keeps:
  "callbacks (run_backend t es b) = callbacks b \<and>
   session_locale (run_backend t es b) = session_locale b \<and>
   inbox (run_backend t es b) = inbox b \<and>
   phase (run_backend t es b) = Terminated"
  by (induction es arbitrary: b) (auto split: sum.splits)

lemma run_backend_usable:
  "usable t \<Longrightarrow> pending (run_backend t es b) = [] \<and> reported (run_backend t es b) = reported b"
proof (induction es arbitrary: b)
  case Nil
  then show ?case by simp
next
  case (Cons e es)
  from invoke_usable [OF Cons.prems] obtain w' where "invoke t e (shell b) = Inr w'"
    by blast
  with Cons show ?case by simp
qed

lemma serve_starts:
  assumes "phase b = NotStarted"
    and "f1 \<noteq> None" and "f2 \<noteq> None" and "f3 \<noteq> None" and "f4 \<noteq> None" and "f6 \<noteq> None"
    and "loc \<noteq> NULL"
  shows "serve f1 f2 f3 f4 loc f6 b =
         run_backend \<lparr>cppHeapFreeFn = f1, pushNotificationsFn = f2, responseFn = f3,
                       notifyUserFn = f4, getSaveFilenameFn = f6\<rparr> (pending b)
           (b\<lparr>callbacks := Some \<lparr>cppHeapFreeFn = f1, pushNotificationsFn = f2, responseFn = f3,
                                   notifyUserFn = f4, getSaveFilenameFn = f6\<rparr>,
              session_locale := Some loc, phase := Serving\<rparr>)"
  using assms by (auto simp: serve_def usable_def Let_def)

lemma serve_again: "phase b \<noteq> NotStarted \<Longrightarrow>
  serve f1 f2 f3 f4 loc f6 b = b\<lparr>reported := reported b @ [AlreadyStarted]\<rparr>"
  by (simp add: serve_def Let_def)

lemma perform_keeps_session:
  "phase b \<noteq> NotStarted \<Longrightarrow>
   phase (perform op b) \<noteq> NotStarted \<and> session_locale (perform op b) = session_locale b \<and>
   callbacks (perform op b) = callbacks b"
proof (cases op)
  case (Serve f1 f2 f3 f4 loc f6)
  assume "phase b \<noteq> NotStarted"
  with Serve show ?thesis by (simp add: serve_again)
next
  case (Inbound i)
  assume "phase b \<noteq> NotStarted"
  with Inbound show ?thesis
    by (cases i) (simp_all add: backendCall_def handleURI_def systemOpen_def)
qed

lemma fold_perform_keeps_session:
  "phase b \<noteq> NotStarted \<Longrightarrow>
   phase (fold perform ops b) \<noteq> NotStarted \<and>
   session_locale (fold perform ops b) = session_locale b \<and>
   callbacks (fold perform ops b) = callbacks b"
proof (induction ops arbitrary: b)
  case Nil
  then show ?case by simp
next
  case (Cons op ops)
  from perform_keeps_session [OF Cons.prems, of op] Cons.IH [of "perform op b"]
  show ?case by simp
qed

text \<open>
  Claim C4. \<^verbatim>\<open>serve\<close> takes the release function, the push callback, the response
  callback, the notify callback, the locale and the save-filename callback, in this
  order, and yields nothing but the new state. Called on a bridge that has not started,
  with every slot wired and a locale, it constructs the table with each argument in its
  slot, keeps the locale, and returns only when the backend has terminated, with none
  of its processing left and no error reported.
\<close>

theorem serve_wires_table_and_returns_at_termination:
  assumes "phase b = NotStarted"
    and "f1 \<noteq> None" and "f2 \<noteq> None" and "f3 \<noteq> None" and "f4 \<noteq> None" and "f6 \<noteq> None"
    and "loc \<noteq> NULL"
  shows "callbacks (serve f1 f2 f3 f4 loc f6 b)
           = Some \<lparr>cppHeapFreeFn = f1, pushNotificationsFn = f2, responseFn = f3,
                   notifyUserFn = f4, getSaveFilenameFn = f6\<rparr> \<and>
         session_locale (serve f1 f2 f3 f4 loc f6 b) = Some loc \<and>
         phase (serve f1 f2 f3 f4 loc f6 b) = Terminated \<and>
         pending (serve f1 f2 f3 f4 loc f6 b) = [] \<and>
         reported (serve f1 f2 f3 f4 loc f6 b) = reported b"
proof -
  let ?t = "\<lparr>cppHeapFreeFn = f1, pushNotificationsFn = f2, responseFn = f3,
             notifyUserFn = f4, getSaveFilenameFn = f6\<rparr>"
  let ?b = "b\<lparr>callbacks := Some ?t, session_locale := Some loc, phase := Serving\<rparr>"
  have u: "usable ?t"
    using assms by (simp add: usable_def)
  have s: "serve f1 f2 f3 f4 loc f6 b = run_backend ?t (pending b) ?b"
    using assms by (rule serve_starts)
  show ?thesis
    unfolding s using run_backend_keeps [of ?t "pending b" ?b] run_backend_usable [OF u, of "pending b" ?b]
    by simp
qed

theorem serve_wires_table_and_returns_at_termination_witness:
  "phase (fresh [PushNotification (Addr 1), RequestSaveFilename (Addr 2)] ([] :: nat list)) = NotStarted \<and>
   Some shell_free \<noteq> None \<and> Some ignore_message \<noteq> None \<and> Some ignore_response \<noteq> None \<and>
   Some dialog_cancelled \<noteq> None \<and> Addr 5 \<noteq> NULL \<and>
   callbacks (serve (Some shell_free) (Some ignore_message) (Some ignore_response)
       (Some ignore_message) (Addr 5) (Some dialog_cancelled)
       (fresh [PushNotification (Addr 1), RequestSaveFilename (Addr 2)] []))
     = Some \<lparr>cppHeapFreeFn = Some shell_free, pushNotificationsFn = Some ignore_message,
             responseFn = Some ignore_response, notifyUserFn = Some ignore_message,
             getSaveFilenameFn = Some dialog_cancelled\<rparr> \<and>
   phase (serve (Some shell_free) (Some ignore_message) (Some ignore_response)
       (Some ignore_message) (Addr 5) (Some dialog_cancelled)
       (fresh [PushNotification (Addr 1), RequestSaveFilename (Addr 2)] [])) = Terminated \<and>
   pending (serve (Some shell_free) (Some ignore_message) (Some ignore_response)
       (Some ignore_message) (Addr 5) (Some dialog_cancelled)
       (fresh [PushNotification (Addr 1), RequestSaveFilename (Addr 2)] [])) = []"
  using serve_wires_table_and_returns_at_termination
    [where b = "fresh [PushNotification (Addr 1), RequestSaveFilename (Addr 2)] ([] :: nat list)"
       and ?f1.0 = "Some shell_free" and ?f2.0 = "Some ignore_message"
       and ?f3.0 = "Some ignore_response" and ?f4.0 = "Some ignore_message"
       and loc = "Addr 5" and ?f6.0 = "Some dialog_cancelled"]
  by (simp add: fresh_def)

text \<open>
  Claim C6. A call of \<^verbatim>\<open>serve\<close> on a bridge that has already started (serving or
  terminated) fails at once: it reports one startup error and changes nothing else, so
  the table of the first session, its locale, the shell and the backend's pending work
  are as they were.
\<close>

theorem second_serve_is_rejected:
  assumes "phase b \<noteq> NotStarted"
  shows "serve f1 f2 f3 f4 loc f6 b = b\<lparr>reported := reported b @ [AlreadyStarted]\<rparr> \<and>
         callbacks (serve f1 f2 f3 f4 loc f6 b) = callbacks b \<and>
         session_locale (serve f1 f2 f3 f4 loc f6 b) = session_locale b \<and>
         phase (serve f1 f2 f3 f4 loc f6 b) = phase b \<and>
         pending (serve f1 f2 f3 f4 loc f6 b) = pending b \<and>
         shell (serve f1 f2 f3 f4 loc f6 b) = shell b"
  using assms by (simp add: serve_def Let_def)

text \<open>
  A first call starts the small shell's bridge and runs it to its end; a second call,
  with no slot wired at all, is rejected and the first table is still in place.
\<close>

theorem second_serve_is_rejected_witness:
  "phase (serve (Some shell_free) (Some ignore_message) (Some ignore_response)
       (Some ignore_message) (Addr 5) (Some dialog_cancelled)
       (fresh [PushNotification (Addr 1)] [])) \<noteq> NotStarted \<and>
   callbacks (serve None None None None NULL None
       (serve (Some shell_free) (Some ignore_message) (Some ignore_response)
          (Some ignore_message) (Addr 5) (Some dialog_cancelled)
          (fresh [PushNotification (Addr 1)] [])))
     = Some \<lparr>cppHeapFreeFn = Some shell_free, pushNotificationsFn = Some ignore_message,
             responseFn = Some ignore_response, notifyUserFn = Some ignore_message,
             getSaveFilenameFn = Some dialog_cancelled\<rparr> \<and>
   reported (serve None None None None NULL None
       (serve (Some shell_free) (Some ignore_message) (Some ignore_response)
          (Some ignore_message) (Addr 5) (Some dialog_cancelled)
          (fresh [PushNotification (Addr 1)] []))) = [AlreadyStarted]"
  using second_serve_is_rejected
    [where b = "serve (Some shell_free) (Some ignore_message) (Some ignore_response)
          (Some ignore_message) (Addr 5) (Some dialog_cancelled)
          (fresh [PushNotification (Addr 1)] [])"
       and ?f1.0 = None and ?f2.0 = None and ?f3.0 = None and ?f4.0 = None and loc = NULL
       and ?f6.0 = None]
  by (simp add: serve_def usable_def fresh_def Let_def pushNotify_def ignore_message_def)

text \<open>
  Claim C7. On a bridge that has not started, a call of \<^verbatim>\<open>serve\<close> with a slot that is
  the null pointer fails at startup: it reports exactly one fatal error, constructs no
  table, and processes no event (the backend's pending work and the shell are
  untouched, and the bridge has not started).
\<close>

theorem serve_fails_fast_on_unusable_slot:
  assumes "phase b = NotStarted"
    and "f1 = None \<or> f2 = None \<or> f3 = None \<or> f4 = None \<or> f6 = None"
  shows "serve f1 f2 f3 f4 loc f6 b = b\<lparr>reported := reported b @ [UnusableSlot]\<rparr> \<and>
         callbacks (serve f1 f2 f3 f4 loc f6 b) = callbacks b \<and>
         phase (serve f1 f2 f3 f4 loc f6 b) = NotStarted \<and>
         pending (serve f1 f2 f3 f4 loc f6 b) = pending b \<and>
         shell (serve f1 f2 f3 f4 loc f6 b) = shell b"
  using assms by (auto simp: serve_def usable_def Let_def)

theorem serve_fails_fast_on_unusable_slot_witness:
  "phase (fresh [PushNotification (Addr 1)] ([] :: nat list)) = NotStarted \<and>
   (None :: nat list responseCallback) = None \<and>
   serve (Some shell_free) (Some ignore_message) None (Some ignore_message) (Addr 5)
       (Some dialog_cancelled) (fresh [PushNotification (Addr 1)] [])
     = \<lparr>callbacks = None, session_locale = None, phase = NotStarted,
        pending = [PushNotification (Addr 1)], inbox = [], shell = [],
        reported = [UnusableSlot]\<rparr>"
  using serve_fails_fast_on_unusable_slot
    [where b = "fresh [PushNotification (Addr 1)] ([] :: nat list)"
       and ?f1.0 = "Some shell_free" and ?f2.0 = "Some ignore_message" and ?f3.0 = None
       and ?f4.0 = "Some ignore_message" and loc = "Addr 5" and ?f6.0 = "Some dialog_cancelled"]
  by (simp add: fresh_def)

text \<open>
  Claim C9. The locale is unset before \<^verbatim>\<open>serve\<close>; a call of \<^verbatim>\<open>serve\<close> that starts the
  bridge sets it to its argument, and it then stays that value: whatever events the
  backend processes through whatever callbacks during the call, and whatever operations
  follow (inbound calls, further calls of \<^verbatim>\<open>serve\<close> with another locale).
\<close>

theorem locale_set_once_and_read_only:
  assumes "phase b = NotStarted"
    and "f1 \<noteq> None" and "f2 \<noteq> None" and "f3 \<noteq> None" and "f4 \<noteq> None" and "f6 \<noteq> None"
    and "loc \<noteq> NULL"
  shows "session_locale (fresh evs w) = None \<and>
         session_locale (fold perform ops (serve f1 f2 f3 f4 loc f6 b)) = Some loc"
proof -
  let ?t = "\<lparr>cppHeapFreeFn = f1, pushNotificationsFn = f2, responseFn = f3,
             notifyUserFn = f4, getSaveFilenameFn = f6\<rparr>"
  let ?b = "b\<lparr>callbacks := Some ?t, session_locale := Some loc, phase := Serving\<rparr>"
  have s: "serve f1 f2 f3 f4 loc f6 b = run_backend ?t (pending b) ?b"
    using assms by (rule serve_starts)
  have started: "phase (serve f1 f2 f3 f4 loc f6 b) \<noteq> NotStarted"
    and set: "session_locale (serve f1 f2 f3 f4 loc f6 b) = Some loc"
    unfolding s using run_backend_keeps [of ?t "pending b" ?b] by simp_all
  from fold_perform_keeps_session [OF started, of ops] set
  show ?thesis by (simp add: fresh_def)
qed

theorem locale_set_once_and_read_only_witness:
  "phase (fresh [NotifyUser (Addr 1)] ([] :: nat list)) = NotStarted \<and>
   Some shell_free \<noteq> None \<and> Some ignore_message \<noteq> None \<and> Some ignore_response \<noteq> None \<and>
   Some dialog_accepts \<noteq> None \<and> Addr 5 \<noteq> NULL \<and>
   session_locale (fold perform
       [Inbound (HandleURI (Addr 3)),
        Serve (Some shell_free) (Some ignore_message) (Some ignore_response)
          (Some ignore_message) (Addr 9) (Some dialog_accepts),
        Inbound (BackendCall 1 (Addr 4)), Inbound (SystemOpen (Addr 6))]
       (serve (Some shell_free) (Some ignore_message) (Some ignore_response)
          (Some ignore_message) (Addr 5) (Some dialog_accepts)
          (fresh [NotifyUser (Addr 1)] []))) = Some (Addr 5)"
  using locale_set_once_and_read_only
    [where b = "fresh [NotifyUser (Addr 1)] ([] :: nat list)"
       and ?f1.0 = "Some shell_free" and ?f2.0 = "Some ignore_message"
       and ?f3.0 = "Some ignore_response" and ?f4.0 = "Some ignore_message"
       and loc = "Addr 5" and ?f6.0 = "Some dialog_accepts"
       and ops = "[Inbound (HandleURI (Addr 3)),
        Serve (Some shell_free) (Some ignore_message) (Some ignore_response)
          (Some ignore_message) (Addr 9) (Some dialog_accepts),
        Inbound (BackendCall 1 (Addr 4)), Inbound (SystemOpen (Addr 6))]"]
  by (simp add: fresh_def)

end
